theory Spec2Isabelle
  imports Complex_Main
begin

section \<open>Conditional Gaussian diffusion: schedules, coefficient cache, samplers\<close>

text \<open>
  A shallow embedding of \<^verbatim>\<open>src/difs/diffusion.py\<close> and of the guidance wrapper of
  \<^verbatim>\<open>src/difs/models.py\<close>.  Tensor entries are exact reals, so every statement below is
  about exact arithmetic; rounding, infinities and NaN of the float32/float64 buffers are
  outside the model.  A tensor of shape \<open>(batch, channels, seq_length)\<close> is a list of
  batch rows, each row the flattened \<open>channels * seq_length\<close> entries; a condition or
  initial-state tensor of shape \<open>(batch, dim)\<close> is a list of rows as well.  Elementwise
  operations are written for operands of equal shape, which is what the source passes.
\<close>

subsection \<open>Errors and tensors\<close>

datatype error =
  AssertionError | ValueError | ZeroDivisionError | RuntimeError | IndexError | UnboundLocalError

definition bind_err :: "error + 'a \<Rightarrow> ('a \<Rightarrow> error + 'b) \<Rightarrow> error + 'b" where
  "bind_err m f = (case m of Inl e \<Rightarrow> Inl e | Inr v \<Rightarrow> f v)"

type_synonym vec = "real list"
type_synonym tensor = "vec list"

text \<open>A zero-dimensional tensor (or Python float) times a tensor.\<close>

definition smul :: "real \<Rightarrow> tensor \<Rightarrow> tensor" where
  "smul c x = map (map (\<lambda>v. c * v)) x"

text \<open>A coefficient of shape \<open>(batch, 1, 1)\<close>, as \<open>extract\<close> returns it, broadcast over a tensor.\<close>

definition rows_mul :: "real list \<Rightarrow> tensor \<Rightarrow> tensor" where
  "rows_mul cs x = map2 (\<lambda>c row. map (\<lambda>v. c * v) row) cs x"

definition rows_div :: "tensor \<Rightarrow> real list \<Rightarrow> tensor" where
  "rows_div x cs = map2 (\<lambda>row c. map (\<lambda>v. v / c) row) x cs"

definition rows_add :: "tensor \<Rightarrow> real list \<Rightarrow> tensor" where
  "rows_add x cs = map2 (\<lambda>row c. map (\<lambda>v. v + c) row) x cs"

definition tadd :: "tensor \<Rightarrow> tensor \<Rightarrow> tensor" where
  "tadd x y = map2 (map2 (\<lambda>a b. a + b)) x y"

definition tsub :: "tensor \<Rightarrow> tensor \<Rightarrow> tensor" where
  "tsub x y = map2 (map2 (\<lambda>a b. a - b)) x y"

definition tmul :: "tensor \<Rightarrow> tensor \<Rightarrow> tensor" where
  "tmul x y = map2 (map2 (\<lambda>a b. a * b)) x y"

definition clamp :: "real \<Rightarrow> real \<Rightarrow> tensor \<Rightarrow> tensor" where
  "clamp lo hi x = map (map (\<lambda>v. min (max v lo) hi)) x"

definition zeros_like :: "tensor \<Rightarrow> tensor" where
  "zeros_like x = map (map (\<lambda>v. 0)) x"


definition normalize_to_neg_one_to_one :: "tensor \<Rightarrow> tensor" where
  "normalize_to_neg_one_to_one img = map (map (\<lambda>v. v * 2 - 1)) img"

definition unnormalize_to_zero_to_one :: "tensor \<Rightarrow> tensor" where
  "unnormalize_to_zero_to_one t = map (map (\<lambda>v. (v + 1) * 0.5)) t"

text \<open>
  \<^verbatim>\<open>extract(a, t, x_shape)\<close>, named \<open>extract_t\<close> because \<open>extract\<close> is a keyword of
  Isabelle: \<^verbatim>\<open>a.gather(-1, t)\<close> reads \<open>a\<close> at every index of the batch of
  timesteps and raises on an index outside \<open>[0, len(a))\<close>; the reshape to
  \<open>(b, 1, ..., 1)\<close> is the broadcasting that \<open>rows_mul\<close> and its siblings perform.
\<close>

definition extract_t :: "real list \<Rightarrow> int list \<Rightarrow> error + real list" where
  "extract_t a t =
     (if list_all (\<lambda>i. 0 \<le> i \<and> i < int (length a)) t
      then Inr (map (\<lambda>i. a ! nat i) t) else Inl RuntimeError)"

text \<open>\<^verbatim>\<open>a[i]\<close> on a one-dimensional tensor: a negative index counts from the end.\<close>

definition index :: "real list \<Rightarrow> int \<Rightarrow> error + real" where
  "index a i =
     (if 0 \<le> i \<and> i < int (length a) then Inr (a ! nat i)
      else if i < 0 \<and> - int (length a) \<le> i then Inr (a ! nat (int (length a) + i))
      else Inl IndexError)"

subsection \<open>Random draws\<close>

text \<open>
  The generator is a fixed source of values and the number of values drawn so far.
  \<^verbatim>\<open>torch.randn_like(x)\<close> and \<^verbatim>\<open>torch.rand(shape)\<close> read as many values as the shape has
  entries and advance the position; the distribution of the values is not modelled.
\<close>

record rng =
  source :: "nat \<Rightarrow> real"
  drawn :: nat

fun fill :: "(nat \<Rightarrow> real) \<Rightarrow> nat \<Rightarrow> tensor \<Rightarrow> tensor" where
  "fill f p [] = []"
| "fill f p (row # rows) = map f [p ..< p + length row] # fill f (p + length row) rows"

definition numel :: "tensor \<Rightarrow> nat" where
  "numel x = sum_list (map length x)"

definition randn_like :: "tensor \<Rightarrow> rng \<Rightarrow> tensor \<times> rng" where
  "randn_like x g = (fill (source g) (drawn g) x, g\<lparr>drawn := drawn g + numel x\<rparr>)"

definition randn :: "nat \<times> nat \<Rightarrow> rng \<Rightarrow> tensor \<times> rng" where
  "randn shape g = randn_like (replicate (fst shape) (replicate (snd shape) 0)) g"

subsection \<open>Schedule builder\<close>

text \<open>
  \<^verbatim>\<open>torch.linspace(start, end, steps)\<close>: a negative number of steps raises, one step gives
  \<open>[start]\<close>, otherwise the points are evenly spaced with both ends included.
\<close>

definition linspace :: "real \<Rightarrow> real \<Rightarrow> int \<Rightarrow> error + real list" where
  "linspace a b steps =
     (if steps < 0 then Inl RuntimeError
      else if steps = 1 then Inr [a]
      else Inr (map (\<lambda>i. a + real i * (b - a) / (real_of_int steps - 1)) [0 ..< nat steps]))"

definition linear_beta_schedule :: "int \<Rightarrow> error + real list" where
  "linear_beta_schedule timesteps =
     (if timesteps = 0 then Inl ZeroDivisionError
      else let scale = 1000 / real_of_int timesteps;
               beta_start = scale * 0.0001;
               beta_end = scale * 0.02
           in linspace beta_start beta_end timesteps)"

definition cosine_beta_schedule :: "int \<Rightarrow> real \<Rightarrow> error + real list" where
  "cosine_beta_schedule timesteps s =
     (let steps = timesteps + 1
      in bind_err (linspace 0 (real_of_int timesteps) steps) (\<lambda>x.
           let alphas_cumprod =
                 map (\<lambda>v. (cos (((v / real_of_int timesteps) + s) / (1 + s) * pi * 0.5))\<^sup>2) x
           in bind_err (index alphas_cumprod 0) (\<lambda>a0.
                let alphas_cumprod = map (\<lambda>v. v / a0) alphas_cumprod;
                    betas = map2 (\<lambda>a b. 1 - a / b) (tl alphas_cumprod) (butlast alphas_cumprod)
                in Inr (map (\<lambda>v. min (max v 0) 0.999) betas))))"

fun cumprod_from :: "real \<Rightarrow> real list \<Rightarrow> real list" where
  "cumprod_from p [] = []"
| "cumprod_from p (x # xs) = (p * x) # cumprod_from (p * x) xs"

definition cumprod :: "real list \<Rightarrow> real list" where
  "cumprod xs = cumprod_from 1 xs"

subsection \<open>Engine construction\<close>

record config =
  cfg_channels :: nat
  cfg_seq_length :: nat
  cfg_classifier_free_guidance :: bool
  cfg_timesteps :: int
  cfg_sampling_timesteps :: "int option"
  cfg_objective :: string
  cfg_beta_schedule :: string
  cfg_ddim_sampling_eta :: real
  cfg_auto_normalize :: bool
  cfg_clip_min :: real
  cfg_clip_max :: real
  cfg_drop_prob :: real
  cfg_guidance_scale :: real

record engine =
  channels :: nat
  seq_length :: nat
  objective :: string
  classifier_free_guidance :: bool
  drop_prob :: real
  guidance_scale :: real
  beta_schedule :: string
  num_timesteps :: nat
  sampling_timesteps :: int
  is_ddim_sampling :: bool
  ddim_sampling_eta :: real
  betas :: "real list"
  alphas_cumprod :: "real list"
  alphas_cumprod_prev :: "real list"
  sqrt_alphas_cumprod :: "real list"
  sqrt_one_minus_alphas_cumprod :: "real list"
  log_one_minus_alphas_cumprod :: "real list"
  sqrt_recip_alphas_cumprod :: "real list"
  sqrt_recipm1_alphas_cumprod :: "real list"
  posterior_variance :: "real list"
  posterior_log_variance_clipped :: "real list"
  posterior_mean_coef1 :: "real list"
  posterior_mean_coef2 :: "real list"
  loss_weight :: "real list"
  auto_normalize :: bool
  clip_min :: real
  clip_max :: real

text \<open>
  The products and quotients of the coefficient cache.  All operands have the length of
  \<open>betas\<close>, except \<open>alphas_cumprod_prev\<close> for an empty schedule, which has the single
  padded entry and broadcasts against the empty arrays to an empty array, as \<open>map2\<close> does.
\<close>

definition build :: "config \<Rightarrow> real list \<Rightarrow> error + engine" where
  "build c bs =
     (let alphas = map (\<lambda>b. 1 - b) bs;
          acp = cumprod alphas;
          acp_prev = 1 # butlast acp;
          timesteps = int (length bs);
          sampling = (case cfg_sampling_timesteps c of None \<Rightarrow> timesteps | Some v \<Rightarrow> v)
      in if \<not> sampling \<le> timesteps then Inl AssertionError
         else
           let pv = map2 (\<lambda>num den. num / den)
                      (map2 (\<lambda>b p. b * (1 - p)) bs acp_prev) (map (\<lambda>a. 1 - a) acp);
               snr = map (\<lambda>a. a / (1 - a)) acp
           in Inr \<lparr> channels = cfg_channels c,
                    seq_length = cfg_seq_length c,
                    objective = cfg_objective c,
                    classifier_free_guidance = cfg_classifier_free_guidance c,
                    drop_prob = cfg_drop_prob c,
                    guidance_scale = cfg_guidance_scale c,
                    beta_schedule = cfg_beta_schedule c,
                    num_timesteps = length bs,
                    sampling_timesteps = sampling,
                    is_ddim_sampling = (sampling < timesteps),
                    ddim_sampling_eta = cfg_ddim_sampling_eta c,
                    betas = bs,
                    alphas_cumprod = acp,
                    alphas_cumprod_prev = acp_prev,
                    sqrt_alphas_cumprod = map sqrt acp,
                    sqrt_one_minus_alphas_cumprod = map (\<lambda>a. sqrt (1 - a)) acp,
                    log_one_minus_alphas_cumprod = map (\<lambda>a. ln (1 - a)) acp,
                    sqrt_recip_alphas_cumprod = map (\<lambda>a. sqrt (1 / a)) acp,
                    sqrt_recipm1_alphas_cumprod = map (\<lambda>a. sqrt (1 / a - 1)) acp,
                    posterior_variance = pv,
                    posterior_log_variance_clipped = map (\<lambda>v. ln (max v (1 / 10 ^ 20))) pv,
                    posterior_mean_coef1 =
                      map2 (\<lambda>num den. num / den)
                        (map2 (\<lambda>b p. b * sqrt p) bs acp_prev) (map (\<lambda>a. 1 - a) acp),
                    posterior_mean_coef2 =
                      map2 (\<lambda>num den. num / den)
                        (map2 (\<lambda>p al. (1 - p) * sqrt al) acp_prev alphas) (map (\<lambda>a. 1 - a) acp),
                    loss_weight =
                      (if cfg_objective c = ''pred_noise'' then map (\<lambda>v. 1) snr
                       else if cfg_objective c = ''pred_x0'' then snr
                       else map (\<lambda>v. v / (v + 1)) snr),
                    auto_normalize = cfg_auto_normalize c,
                    clip_min = cfg_clip_min c,
                    clip_max = cfg_clip_max c \<rparr>)"

text \<open>
  \<^verbatim>\<open>__init__\<close> of \<^verbatim>\<open>GaussianDiffusionConditional\<close>; the constructor of
  \<^verbatim>\<open>GaussianDiffusionConditionalTrainer\<close> runs the same checks and computations in the
  same order.
\<close>

definition init :: "config \<Rightarrow> error + engine" where
  "init c =
     (if cfg_objective c \<notin> {''pred_noise'', ''pred_x0'', ''pred_v''} then Inl AssertionError
      else bind_err
             (if cfg_beta_schedule c = ''linear'' then linear_beta_schedule (cfg_timesteps c)
              else if cfg_beta_schedule c = ''cosine''
                then cosine_beta_schedule (cfg_timesteps c) 0.008
              else Inl ValueError)
             (build c))"

subsection \<open>The denoising network and its guidance wrapper\<close>

text \<open>
  The layer stack of a network is a parameter: a function of the sample, the batch of
  timesteps, the condition after replacement and (for the fully conditioned variant) the
  initial state.  \<^verbatim>\<open>prob_mask_like\<close> comes from \<^verbatim>\<open>difs.utils\<close>, which is not among the
  sources, and is a parameter as well: from the batch size and a probability it gives
  the keep mask.
\<close>

record unet =
  u_layers :: "tensor \<Rightarrow> int list \<Rightarrow> tensor \<Rightarrow> tensor"
  u_null_classes_emb :: vec
  u_cond_drop_prob :: real
  u_prob_mask_like :: "nat \<Rightarrow> real \<Rightarrow> bool list"

record fc_unet =
  layers :: "tensor \<Rightarrow> int list \<Rightarrow> tensor \<Rightarrow> tensor \<Rightarrow> tensor"
  null_classes_emb :: vec
  cond_drop_prob :: real
  prob_mask_like :: "nat \<Rightarrow> real \<Rightarrow> bool list"

text \<open>\<^verbatim>\<open>torch.std\<close> over all non-batch dimensions, with Bessel's correction.\<close>

definition std :: "vec \<Rightarrow> real" where
  "std v =
     (let n = real (length v); mu = sum_list v / n
      in sqrt (sum_list (map (\<lambda>x. (x - mu)\<^sup>2) v) / (n - 1)))"

definition std_fn :: "tensor \<Rightarrow> real list" where
  "std_fn x = map std x"

text \<open>\<^verbatim>\<open>Unet.forward\<close> and \<^verbatim>\<open>Unet.forward_with_cond_scale\<close>.\<close>

definition unet_forward :: "unet \<Rightarrow> tensor \<Rightarrow> int list \<Rightarrow> tensor \<Rightarrow> real option \<Rightarrow> tensor" where
  "unet_forward m x time cond p =
     (let batch = length x;
          p = (case p of None \<Rightarrow> u_cond_drop_prob m | Some v \<Rightarrow> v);
          c = (if p > 0
               then map2 (\<lambda>keep row. if keep then row else u_null_classes_emb m)
                      (u_prob_mask_like m batch (1 - p)) cond
               else cond)
      in u_layers m x time c)"

text \<open>
  The wrapper returns its output together with the list of \<^verbatim>\<open>cond_drop_prob\<close> values it
  called \<^verbatim>\<open>forward\<close> with, in call order.
\<close>

definition unet_forward_with_cond_scale ::
    "unet \<Rightarrow> tensor \<Rightarrow> int list \<Rightarrow> tensor \<Rightarrow> real \<Rightarrow> real \<Rightarrow> tensor \<times> real list" where
  "unet_forward_with_cond_scale m x time cond cond_scale rescaled_phi =
     (let logits = unet_forward m x time cond (Some 0)
      in if cond_scale = 1 then (logits, [0])
         else
           let null_logits = unet_forward m x time cond (Some 1);
               scaled_logits = tadd null_logits (smul cond_scale (tsub logits null_logits))
           in if rescaled_phi = 0 then (scaled_logits, [0, 1])
              else
                let rescaled_logits =
                      rows_mul (map2 (\<lambda>a b. a / b) (std_fn logits) (std_fn scaled_logits))
                        scaled_logits
                in (tadd (smul rescaled_phi rescaled_logits)
                      (smul (1 - rescaled_phi) scaled_logits), [0, 1]))"

text \<open>\<^verbatim>\<open>FullyConditionedUnet.forward\<close> and \<^verbatim>\<open>FullyConditionedUnet.forward_with_cond_scale\<close>.\<close>

definition forward ::
    "fc_unet \<Rightarrow> tensor \<Rightarrow> int list \<Rightarrow> tensor \<Rightarrow> tensor \<Rightarrow> real option \<Rightarrow> tensor" where
  "forward m x time cond inits p =
     (let batch = length x;
          p = (case p of None \<Rightarrow> cond_drop_prob m | Some v \<Rightarrow> v);
          c = (if p > 0
               then map2 (\<lambda>keep row. if keep then row else null_classes_emb m)
                      (prob_mask_like m batch (1 - p)) cond
               else cond)
      in layers m x time c inits)"

definition forward_with_cond_scale ::
    "fc_unet \<Rightarrow> tensor \<Rightarrow> int list \<Rightarrow> tensor \<Rightarrow> tensor \<Rightarrow> real \<Rightarrow> real \<Rightarrow> tensor \<times> real list" where
  "forward_with_cond_scale m x time cond inits cond_scale rescaled_phi =
     (let logits = forward m x time cond inits (Some 0)
      in if cond_scale = 1 then (logits, [0])
         else
           let null_logits = forward m x time cond inits (Some 1);
               scaled_logits = tadd null_logits (smul cond_scale (tsub logits null_logits))
           in if rescaled_phi = 0 then (scaled_logits, [0, 1])
              else
                let rescaled_logits =
                      rows_mul (map2 (\<lambda>a b. a / b) (std_fn logits) (std_fn scaled_logits))
                        scaled_logits
                in (tadd (smul rescaled_phi rescaled_logits)
                      (smul (1 - rescaled_phi) scaled_logits), [0, 1]))"

subsection \<open>Parameterization converter\<close>

definition predict_start_from_noise :: "engine \<Rightarrow> tensor \<Rightarrow> int list \<Rightarrow> tensor \<Rightarrow> error + tensor" where
  "predict_start_from_noise e x_t t noise =
     bind_err (extract_t (sqrt_recip_alphas_cumprod e) t) (\<lambda>a.
     bind_err (extract_t (sqrt_recipm1_alphas_cumprod e) t) (\<lambda>b.
       Inr (tsub (rows_mul a x_t) (rows_mul b noise))))"

definition predict_noise_from_start :: "engine \<Rightarrow> tensor \<Rightarrow> int list \<Rightarrow> tensor \<Rightarrow> error + tensor" where
  "predict_noise_from_start e x_t t x0 =
     bind_err (extract_t (sqrt_recip_alphas_cumprod e) t) (\<lambda>a.
     bind_err (extract_t (sqrt_recipm1_alphas_cumprod e) t) (\<lambda>b.
       Inr (rows_div (tsub (rows_mul a x_t) x0) b)))"

definition predict_v :: "engine \<Rightarrow> tensor \<Rightarrow> int list \<Rightarrow> tensor \<Rightarrow> error + tensor" where
  "predict_v e x_start t noise =
     bind_err (extract_t (sqrt_alphas_cumprod e) t) (\<lambda>a.
     bind_err (extract_t (sqrt_one_minus_alphas_cumprod e) t) (\<lambda>b.
       Inr (tsub (rows_mul a noise) (rows_mul b x_start))))"

definition predict_start_from_v :: "engine \<Rightarrow> tensor \<Rightarrow> int list \<Rightarrow> tensor \<Rightarrow> error + tensor" where
  "predict_start_from_v e x_t t v =
     bind_err (extract_t (sqrt_alphas_cumprod e) t) (\<lambda>a.
     bind_err (extract_t (sqrt_one_minus_alphas_cumprod e) t) (\<lambda>b.
       Inr (tsub (rows_mul a x_t) (rows_mul b v))))"

definition q_posterior ::
    "engine \<Rightarrow> tensor \<Rightarrow> tensor \<Rightarrow> int list \<Rightarrow> error + (tensor \<times> real list \<times> real list)" where
  "q_posterior e x_start x_t t =
     bind_err (extract_t (posterior_mean_coef1 e) t) (\<lambda>c1.
     bind_err (extract_t (posterior_mean_coef2 e) t) (\<lambda>c2.
     bind_err (extract_t (posterior_variance e) t) (\<lambda>pv.
     bind_err (extract_t (posterior_log_variance_clipped e) t) (\<lambda>plv.
       Inr (tadd (rows_mul c1 x_start) (rows_mul c2 x_t), pv, plv)))))"

text \<open>
  \<^verbatim>\<open>model_predictions\<close> returns the pair \<open>(pred_noise, x_start)\<close>.  An objective outside the
  three names leaves both variables unbound.
\<close>

definition model_predictions ::
    "engine \<Rightarrow> fc_unet \<Rightarrow> tensor \<Rightarrow> int list \<Rightarrow> tensor \<Rightarrow> tensor \<Rightarrow> real \<Rightarrow> real \<Rightarrow> bool \<Rightarrow> bool
       \<Rightarrow> error + (tensor \<times> tensor)" where
  "model_predictions e m x t cond inits cond_scale rescaled_phi clip_x_start rederive_pred_noise =
     (let model_output = fst (forward_with_cond_scale m x t cond inits cond_scale rescaled_phi);
          model_output =
            (if classifier_free_guidance e
             then let model_output_unguided =
                        fst (forward_with_cond_scale m x t (zeros_like cond) (zeros_like inits)
                               cond_scale rescaled_phi)
                  in tadd model_output_unguided
                       (smul (guidance_scale e) (tsub model_output model_output_unguided))
             else model_output);
          maybe_clip = (if clip_x_start then clamp (clip_min e) (clip_max e) else (\<lambda>v. v))
      in if objective e = ''pred_noise'' then
           bind_err (predict_start_from_noise e x t model_output) (\<lambda>x_start.
             let x_start = maybe_clip x_start
             in if clip_x_start \<and> rederive_pred_noise
                then bind_err (predict_noise_from_start e x t x_start) (\<lambda>pred_noise.
                       Inr (pred_noise, x_start))
                else Inr (model_output, x_start))
         else if objective e = ''pred_x0'' then
           (let x_start = maybe_clip model_output
            in bind_err (predict_noise_from_start e x t x_start) (\<lambda>pred_noise.
                 Inr (pred_noise, x_start)))
         else if objective e = ''pred_v'' then
           bind_err (predict_start_from_v e x t model_output) (\<lambda>x_start.
             let x_start = maybe_clip x_start
             in bind_err (predict_noise_from_start e x t x_start) (\<lambda>pred_noise.
                  Inr (pred_noise, x_start)))
         else Inl UnboundLocalError)"

definition p_mean_variance ::
    "engine \<Rightarrow> fc_unet \<Rightarrow> tensor \<Rightarrow> int list \<Rightarrow> tensor \<Rightarrow> tensor \<Rightarrow> real \<Rightarrow> real \<Rightarrow> bool
       \<Rightarrow> error + (tensor \<times> real list \<times> real list \<times> tensor)" where
  "p_mean_variance e m x t cond inits cond_scale rescaled_phi clip_denoised =
     bind_err (model_predictions e m x t cond inits cond_scale rescaled_phi False False) (\<lambda>preds.
       let x_start = snd preds;
           x_start = (if clip_denoised then clamp (clip_min e) (clip_max e) x_start else x_start)
       in bind_err (q_posterior e x_start x t) (\<lambda>(model_mean, variance, log_variance).
            Inr (model_mean, variance, log_variance, x_start)))"

subsection \<open>Reverse sampling\<close>

text \<open>
  A \<^verbatim>\<open>for\<close> loop over a list: the body maps the loop state to the next state or raises,
  and the first exception ends the loop.
\<close>

fun for_each :: "('i \<Rightarrow> 's \<Rightarrow> error + 's) \<Rightarrow> 'i list \<Rightarrow> 's \<Rightarrow> error + 's" where
  "for_each body [] s = Inr s"
| "for_each body (i # is) s =
     (case body i s of Inl err \<Rightarrow> Inl err | Inr s' \<Rightarrow> for_each body is s')"

definition unnormalize :: "engine \<Rightarrow> tensor \<Rightarrow> tensor" where
  "unnormalize e img = (if auto_normalize e then unnormalize_to_zero_to_one img else img)"

definition normalize :: "engine \<Rightarrow> tensor \<Rightarrow> tensor" where
  "normalize e img = (if auto_normalize e then normalize_to_neg_one_to_one img else img)"

text \<open>
  \<^verbatim>\<open>p_sample\<close>.  With \<open>t = 0\<close> the noise is the Python float \<open>0.\<close>: the product with the
  coefficient of shape \<open>(b, 1, 1)\<close> keeps that shape and is broadcast in the sum.  The
  result is the pair \<open>(pred_img, x_start)\<close> and the generator after the call.
\<close>

definition p_sample ::
    "engine \<Rightarrow> fc_unet \<Rightarrow> tensor \<Rightarrow> int \<Rightarrow> tensor \<Rightarrow> tensor \<Rightarrow> real \<Rightarrow> real \<Rightarrow> bool \<Rightarrow> rng
       \<Rightarrow> error + ((tensor \<times> tensor) \<times> rng)" where
  "p_sample e m x t cond inits cond_scale rescaled_phi clip_denoised g =
     (let b = length x;
          batched_times = replicate b t
      in bind_err (p_mean_variance e m x batched_times cond inits cond_scale rescaled_phi
                     clip_denoised)
           (\<lambda>(model_mean, variance, model_log_variance, x_start).
              if t > 0
              then let (noise, g') = randn_like x g;
                       pred_img = tadd model_mean
                                    (rows_mul (map (\<lambda>lv. exp (0.5 * lv)) model_log_variance) noise)
                   in Inr ((pred_img, x_start), g')
              else let pred_img = rows_add model_mean
                                    (map (\<lambda>lv. exp (0.5 * lv) * 0) model_log_variance)
                   in Inr ((pred_img, x_start), g)))"

text \<open>One iteration of the ancestral loop on the loop state \<open>(img, generator)\<close>.\<close>

definition p_sample_body ::
    "engine \<Rightarrow> fc_unet \<Rightarrow> tensor \<Rightarrow> tensor \<Rightarrow> real \<Rightarrow> real \<Rightarrow> int \<Rightarrow> tensor \<times> rng
       \<Rightarrow> error + (tensor \<times> rng)" where
  "p_sample_body e m cond inits cond_scale rescaled_phi t s =
     bind_err (p_sample e m (fst s) t cond inits cond_scale rescaled_phi True (snd s))
       (\<lambda>r. Inr (fst (fst r), snd r))"

definition p_sample_loop ::
    "engine \<Rightarrow> fc_unet \<Rightarrow> nat \<times> nat \<Rightarrow> tensor \<Rightarrow> tensor \<Rightarrow> real \<Rightarrow> real \<Rightarrow> rng
       \<Rightarrow> error + (tensor \<times> rng)" where
  "p_sample_loop e m shape cond inits cond_scale rescaled_phi g =
     (let (img, g) = randn shape g
      in bind_err (for_each (p_sample_body e m cond inits cond_scale rescaled_phi)
                     (rev (map int [0 ..< num_timesteps e])) (img, g))
           (\<lambda>(img, g). Inr (unnormalize e img, g)))"

text \<open>\<^verbatim>\<open>times.int()\<close> truncates towards zero.\<close>

definition trunc :: "real \<Rightarrow> int" where
  "trunc r = (if 0 \<le> r then \<lfloor>r\<rfloor> else \<lceil>r\<rceil>)"

definition time_pairs :: "int \<Rightarrow> int \<Rightarrow> error + (int \<times> int) list" where
  "time_pairs n_total n_sampling =
     bind_err (linspace (- 1) (real_of_int n_total - 1) (n_sampling + 1)) (\<lambda>times.
       let times = rev (map trunc times)
       in Inr (zip (butlast times) (tl times)))"

text \<open>One iteration of the DDIM loop on the loop state \<open>(img, generator)\<close>.\<close>

definition ddim_body ::
    "engine \<Rightarrow> fc_unet \<Rightarrow> nat \<Rightarrow> tensor \<Rightarrow> tensor \<Rightarrow> real \<Rightarrow> real \<Rightarrow> bool \<Rightarrow> int \<times> int
       \<Rightarrow> tensor \<times> rng \<Rightarrow> error + (tensor \<times> rng)" where
  "ddim_body e m batch cond inits cond_scale rescaled_phi clip_denoised pair s =
     (let img = fst s; g = snd s;
          time = fst pair; time_next = snd pair;
          eta = ddim_sampling_eta e;
          time_cond = replicate batch time
      in bind_err (model_predictions e m img time_cond cond inits cond_scale rescaled_phi
                     clip_denoised False)
           (\<lambda>(pred_noise, x_start).
              if time_next < 0 then Inr (x_start, g)
              else
                bind_err (index (alphas_cumprod e) time) (\<lambda>alpha.
                bind_err (index (alphas_cumprod e) time_next) (\<lambda>alpha_next.
                  let sigma = eta * sqrt ((1 - alpha / alpha_next) * (1 - alpha_next) / (1 - alpha));
                      c = sqrt (1 - alpha_next - sigma\<^sup>2);
                      (noise, g') = randn_like img g;
                      img = tadd (tadd (smul (sqrt alpha_next) x_start) (smul c pred_noise))
                                 (smul sigma noise)
                  in Inr (img, g')))))"

text \<open>\<^verbatim>\<open>GaussianDiffusionConditional.ddim_sample\<close>.\<close>

definition ddim_sample ::
    "engine \<Rightarrow> fc_unet \<Rightarrow> nat \<times> nat \<Rightarrow> tensor \<Rightarrow> tensor \<Rightarrow> real \<Rightarrow> real \<Rightarrow> bool \<Rightarrow> rng
       \<Rightarrow> error + (tensor \<times> rng)" where
  "ddim_sample e m shape cond inits cond_scale rescaled_phi clip_denoised g =
     bind_err (time_pairs (int (num_timesteps e)) (sampling_timesteps e)) (\<lambda>pairs.
       let (img, g) = randn shape g
       in bind_err (for_each (ddim_body e m (fst shape) cond inits cond_scale rescaled_phi
                                clip_denoised) pairs (img, g))
            (\<lambda>(img, g). Inr (unnormalize e img, g)))"

text \<open>
  \<^verbatim>\<open>GaussianDiffusionConditionalTrainer.ddim_sample\<close>, with its two optional arguments.  The
  other methods of the trainer class that the two classes share are the same code.
\<close>

definition trainer_ddim_sample ::
    "engine \<Rightarrow> fc_unet \<Rightarrow> nat \<times> nat \<Rightarrow> tensor \<Rightarrow> tensor \<Rightarrow> real \<Rightarrow> real \<Rightarrow> bool
       \<Rightarrow> tensor option \<Rightarrow> int option \<Rightarrow> rng \<Rightarrow> error + (tensor \<times> rng)" where
  "trainer_ddim_sample e m shape cond inits cond_scale rescaled_phi clip_denoised
       starting_data starting_timestep g =
     (let n_total = (case starting_timestep of None \<Rightarrow> int (num_timesteps e) | Some s \<Rightarrow> s);
          n_sampling = (case starting_timestep of None \<Rightarrow> sampling_timesteps e | Some s \<Rightarrow> s)
      in bind_err (time_pairs n_total n_sampling) (\<lambda>pairs.
           let (img, g) = (case starting_data of None \<Rightarrow> randn shape g | Some d \<Rightarrow> (d, g))
           in bind_err (for_each (ddim_body e m (fst shape) cond inits cond_scale rescaled_phi
                                    clip_denoised) pairs (img, g))
                (\<lambda>(img, g). Inr (unnormalize e img, g))))"

text \<open>
  \<^verbatim>\<open>inference\<close>; the \<^verbatim>\<open>no_grad\<close> branch computes the same values.  \<^verbatim>\<open>range(0, n)\<close> is empty
  for \<open>n \<le> 0\<close>.
\<close>

definition inference ::
    "engine \<Rightarrow> fc_unet \<Rightarrow> tensor \<Rightarrow> tensor \<Rightarrow> int \<Rightarrow> tensor \<Rightarrow> real \<Rightarrow> real \<Rightarrow> rng
       \<Rightarrow> error + (tensor \<times> rng)" where
  "inference e m cond inits starting_timestep starting_data cond_scale rescaled_phi g =
     (let batch = length cond
      in if starting_timestep < int (length (betas e))
         then trainer_ddim_sample e m (batch, channels e * seq_length e) cond inits cond_scale
                rescaled_phi True (Some starting_data) (Some starting_timestep) g
         else bind_err (for_each (p_sample_body e m cond inits cond_scale rescaled_phi)
                          (rev (map int [0 ..< nat starting_timestep])) (starting_data, g))
                (\<lambda>(img, g). Inr (unnormalize e img, g)))"

subsection \<open>Forward process, diffuse-to-timestep and training loss\<close>

definition q_sample ::
    "engine \<Rightarrow> tensor \<Rightarrow> int list \<Rightarrow> tensor option \<Rightarrow> rng \<Rightarrow> error + (tensor \<times> rng)" where
  "q_sample e x_start t noise g =
     (let (noise, g) = (case noise of None \<Rightarrow> randn_like x_start g | Some n \<Rightarrow> (n, g))
      in bind_err (extract_t (sqrt_alphas_cumprod e) t) (\<lambda>a.
         bind_err (extract_t (sqrt_one_minus_alphas_cumprod e) t) (\<lambda>b.
           Inr (tadd (rows_mul a x_start) (rows_mul b noise), g))))"

text \<open>
  \<^verbatim>\<open>diffuse\<close>: \<^verbatim>\<open>alphas[target_timestep - 1]\<close> indexes the per-step \<open>1 - betas\<close> with a
  Python index; the \<^verbatim>\<open>no_grad\<close> branch computes the same values.
\<close>

definition diffuse :: "engine \<Rightarrow> tensor \<Rightarrow> int \<Rightarrow> rng \<Rightarrow> error + (tensor \<times> rng)" where
  "diffuse e data target_timestep g =
     (let (noise, g) = randn_like data g;
          alphas = map (\<lambda>b. 1 - b) (betas e)
      in bind_err (index alphas (target_timestep - 1)) (\<lambda>alpha_t.
           Inr (tadd (smul (sqrt alpha_t) data) (smul (sqrt (1 - alpha_t)) noise), g)))"

text \<open>
  The dropout of \<^verbatim>\<open>p_losses\<close> (its lines under "Randomly drop conditioning"):
  \<^verbatim>\<open>torch.rand(cond.shape) > drop_prob\<close> is a mask of the shape of \<open>cond\<close>, and the product
  with the mask keeps an entry where the mask holds and zeroes it elsewhere.
\<close>

definition mask_mul :: "real \<Rightarrow> tensor \<Rightarrow> tensor \<Rightarrow> tensor" where
  "mask_mul p x u = map2 (map2 (\<lambda>v r. v * (if r > p then 1 else 0))) x u"

definition drop_conditioning ::
    "engine \<Rightarrow> tensor \<Rightarrow> tensor \<Rightarrow> rng \<Rightarrow> tensor \<times> tensor \<times> rng" where
  "drop_conditioning e cond inits g =
     (if classifier_free_guidance e
      then let (u, g) = randn_like cond g;
               cond = mask_mul (drop_prob e) cond u;
               (w, g) = randn_like inits g;
               inits = mask_mul (drop_prob e) inits w
           in (cond, inits, g)
      else (cond, inits, g))"

definition mean :: "real list \<Rightarrow> real" where
  "mean v = sum_list v / real (length v)"

definition p_losses ::
    "engine \<Rightarrow> fc_unet \<Rightarrow> tensor \<Rightarrow> int list \<Rightarrow> tensor \<Rightarrow> tensor \<Rightarrow> tensor option \<Rightarrow> rng
       \<Rightarrow> error + (real \<times> rng)" where
  "p_losses e m x_start t cond inits noise g =
     (let (noise, g) = (case noise of None \<Rightarrow> randn_like x_start g | Some n \<Rightarrow> (n, g));
          (cond, inits, g) = drop_conditioning e cond inits g
      in bind_err (q_sample e x_start t (Some noise) g) (\<lambda>(x, g).
           let model_out = forward m x t cond inits None
           in bind_err
                (if objective e = ''pred_noise'' then Inr noise
                 else if objective e = ''pred_x0'' then Inr x_start
                 else if objective e = ''pred_v'' then predict_v e x_start t noise
                 else Inl ValueError)
                (\<lambda>target.
                   let loss = map mean (map2 (map2 (\<lambda>a b. (a - b)\<^sup>2)) model_out target)
                   in bind_err (extract_t (loss_weight e) t) (\<lambda>w.
                        Inr (mean (map2 (\<lambda>l c. l * c) loss w), g)))))"

subsection \<open>Concrete configurations\<close>

text \<open>A configuration with the constructor's defaults for everything but the five arguments.\<close>

definition mk_config :: "int \<Rightarrow> int option \<Rightarrow> string \<Rightarrow> string \<Rightarrow> real \<Rightarrow> config" where
  "mk_config T S obj kind eta =
     \<lparr> cfg_channels = 1, cfg_seq_length = 1, cfg_classifier_free_guidance = False, cfg_timesteps = T, cfg_sampling_timesteps = S,
       cfg_objective = obj, cfg_beta_schedule = kind, cfg_ddim_sampling_eta = eta,
       cfg_auto_normalize = False, cfg_clip_min = - 5, cfg_clip_max = 5,
       cfg_drop_prob = 0.1, cfg_guidance_scale = 1 \<rparr>"

definition engine2 :: engine where
  "engine2 = projr (init (mk_config 2 None ''pred_noise'' ''cosine'' 0))"

text \<open>A generator whose \<open>n\<close>-th value is \<open>n\<close>, and a network whose layer stack returns its input.\<close>

definition rng0 :: rng where
  "rng0 = \<lparr> source = real, drawn = 0 \<rparr>"

definition net0 :: fc_unet where
  "net0 = \<lparr> layers = (\<lambda>x t c i. x), null_classes_emb = [],
            cond_drop_prob = 0, prob_mask_like = (\<lambda>b p. replicate b True) \<rparr>"

text \<open>
  An engine with classifier-free guidance and \<open>drop_prob = 0.1\<close>, and a generator whose
  first value is \<open>0.05\<close> and whose other values are \<open>0.5\<close>.
\<close>

definition cfg_engine :: engine where
  "cfg_engine = engine2\<lparr>classifier_free_guidance := True, drop_prob := 1 / 10\<rparr>"

definition rng_u :: rng where
  "rng_u = \<lparr> source = (\<lambda>n. if n = 0 then 1 / 20 else 1 / 2), drawn = 0 \<rparr>"

text \<open>
  A cosine engine with three timesteps and two sampling steps (so DDIM is selected) and
  \<open>eta = 0\<close>; a second generator that agrees with \<open>rng0\<close> on the first four values only.
\<close>

definition engine3 :: engine where
  "engine3 = projr (init (mk_config 3 (Some 2) ''pred_noise'' ''cosine'' 0))"

definition rng1 :: rng where
  "rng1 = \<lparr> source = (\<lambda>n. if n < 4 then real n else 7), drawn = 0 \<rparr>"

text \<open>
  The resumed schedule in the words of the specification: the entries of the engine's own
  sampling schedule, without those beyond the starting timestep.  It is compared below with
  the schedule that \<^verbatim>\<open>ddim_sample\<close> of the trainer class builds.
\<close>

definition spec_remaining_schedule :: "engine \<Rightarrow> int \<Rightarrow> error + (int \<times> int) list" where
  "spec_remaining_schedule e s =
     bind_err (time_pairs (int (num_timesteps e)) (sampling_timesteps e)) (\<lambda>pairs.
       Inr (filter (\<lambda>p. fst p < s) pairs))"

text \<open>A cosine engine with ten timesteps and five sampling steps.\<close>

definition engine10 :: engine where
  "engine10 = projr (init (mk_config 10 (Some 5) ''pred_noise'' ''cosine'' 0))"

section \<open>Properties\<close>

subsection \<open>Schedules\<close>

lemma bind_err_Inr_iff:
  "bind_err m f = Inr y \<longleftrightarrow> (\<exists>v. m = Inr v \<and> f v = Inr y)"
  by (cases m) (simp_all add: bind_err_def)



lemma length_cumprod_from: "length (cumprod_from p xs) = length xs"
  by (induction xs arbitrary: p) simp_all

lemma linspace_length:
  "linspace a b n = Inr xs \<Longrightarrow> int (length xs) = n"
  by (auto simp: linspace_def split: if_splits)


lemma cosine_betas_length:
  "cosine_beta_schedule T s = Inr bs \<Longrightarrow> 0 \<le> T \<Longrightarrow> int (length bs) = T"
  by (auto simp: cosine_beta_schedule_def Let_def bind_err_Inr_iff dest!: linspace_length)

lemma linear_betas_length:
  "linear_beta_schedule T = Inr bs \<Longrightarrow> int (length bs) = T"
  by (auto simp: linear_beta_schedule_def Let_def split: if_splits dest!: linspace_length)



lemma build_Inr:
  assumes "build c bs = Inr e"
  shows "betas e = bs" and "alphas_cumprod e = cumprod (map (\<lambda>b. 1 - b) bs)"
    and "num_timesteps e = length bs"
  using assms by (auto simp: build_def Let_def split: if_splits)

lemma init_Inr:
  assumes "init c = Inr e"
  shows "\<exists>bs. build c bs = Inr e \<and>
           (cfg_beta_schedule c = ''linear'' \<and> linear_beta_schedule (cfg_timesteps c) = Inr bs
            \<or> cfg_beta_schedule c = ''cosine'' \<and> cosine_beta_schedule (cfg_timesteps c) 0.008 = Inr bs)"
  using assms by (auto simp: init_def bind_err_Inr_iff split: if_splits)





subsection \<open>Construction failures\<close>

lemma bind_err_isl: "isl m \<Longrightarrow> isl (bind_err m f)"
  by (cases m) (simp_all add: bind_err_def)

lemma linear_negative: "T \<le> 0 \<Longrightarrow> isl (linear_beta_schedule T)"
  by (simp add: linear_beta_schedule_def linspace_def Let_def)

lemma cosine_negative: "T < 0 \<Longrightarrow> isl (cosine_beta_schedule T s)"
  by (cases "T = - 1")
     (simp_all add: cosine_beta_schedule_def linspace_def Let_def bind_err_def index_def)

lemma build_sampling:
  "cfg_sampling_timesteps c = Some s \<Longrightarrow> int (length bs) < s \<Longrightarrow> isl (build c bs)"
  by (simp add: build_def Let_def)

text \<open>
  Claim C5, as amended.  Construction fails, and returns no engine, when the objective is
  not one of the three names, when the schedule kind is neither linear nor cosine, when the
  timestep count is negative, when it is zero and the kind is linear, or when the sampling
  step count exceeds the timestep count.  The failures are the assertion, the
  \<^verbatim>\<open>ValueError\<close> and the errors of the division and of \<^verbatim>\<open>torch.linspace\<close>; nothing
  in the constructor catches them.
\<close>

theorem init_fails:
  assumes "cfg_objective c \<notin> {''pred_noise'', ''pred_x0'', ''pred_v''}
           \<or> cfg_beta_schedule c \<notin> {''linear'', ''cosine''}
           \<or> cfg_timesteps c < 0
           \<or> cfg_timesteps c = 0 \<and> cfg_beta_schedule c = ''linear''
           \<or> (\<exists>s. cfg_sampling_timesteps c = Some s \<and> cfg_timesteps c < s)"
  shows "isl (init c)"
proof (cases "init c")
  case (Inl err)
  then show ?thesis by simp
next
  case (Inr e)
  from init_Inr [OF Inr] obtain bs where b: "build c bs = Inr e"
    and k: "cfg_beta_schedule c = ''linear'' \<and> linear_beta_schedule (cfg_timesteps c) = Inr bs
            \<or> cfg_beta_schedule c = ''cosine'' \<and> cosine_beta_schedule (cfg_timesteps c) 0.008 = Inr bs"
    by blast
  have obj: "cfg_objective c \<in> {''pred_noise'', ''pred_x0'', ''pred_v''}"
    using Inr by (auto simp: init_def split: if_splits)
  have kind: "cfg_beta_schedule c \<in> {''linear'', ''cosine''}" using k by auto
  have nonneg: "0 \<le> cfg_timesteps c"
    using k linear_negative [of "cfg_timesteps c"] cosine_negative [of "cfg_timesteps c" "0.008"]
    by (cases "cfg_timesteps c < 0") auto
  have notlin0: "\<not> (cfg_timesteps c = 0 \<and> cfg_beta_schedule c = ''linear'')"
    using k linear_negative [of "cfg_timesteps c"] by auto
  have len: "int (length bs) = cfg_timesteps c"
    using k nonneg by (auto dest: linear_betas_length cosine_betas_length)
  have "\<not> (\<exists>s. cfg_sampling_timesteps c = Some s \<and> cfg_timesteps c < s)"
    using build_sampling [of c _ bs] b len by auto
  with assms obj kind nonneg notlin0 show ?thesis by auto
qed

theorem init_fails_witness:
  "cfg_objective (mk_config 10 None ''pred_eps'' ''cosine'' 0) \<notin> {''pred_noise'', ''pred_x0'', ''pred_v''}
   \<and> isl (init (mk_config 10 None ''pred_eps'' ''cosine'' 0))"
  using init_fails [of "mk_config 10 None ''pred_eps'' ''cosine'' 0"]
  by (simp add: mk_config_def)

text \<open>
  With zero timesteps and the cosine kind nothing fails: the schedule is empty and the
  engine is built with \<open>num_timesteps = 0\<close>.
\<close>

theorem init_fails_counterexample:
  "cfg_timesteps (mk_config 0 None ''pred_v'' ''cosine'' 0) \<le> 0
   \<and> map_sum id num_timesteps (init (mk_config 0 None ''pred_v'' ''cosine'' 0)) = Inr 0"
  by (simp add: mk_config_def init_def cosine_beta_schedule_def linspace_def index_def
      bind_err_def build_def Let_def cumprod_def)

text \<open>Construction succeeds on every other configuration with a positive timestep count.\<close>

lemma init_total:
  assumes "cfg_objective c \<in> {''pred_noise'', ''pred_x0'', ''pred_v''}"
    and "cfg_beta_schedule c \<in> {''linear'', ''cosine''}"
    and "0 < cfg_timesteps c"
    and "case cfg_sampling_timesteps c of None \<Rightarrow> True | Some s \<Rightarrow> s \<le> cfg_timesteps c"
  shows "\<exists>e. init c = Inr e"
proof -
  have "\<exists>bs. (if cfg_beta_schedule c = ''linear'' then linear_beta_schedule (cfg_timesteps c)
              else if cfg_beta_schedule c = ''cosine''
                then cosine_beta_schedule (cfg_timesteps c) 0.008
              else Inl ValueError) = Inr bs \<and> int (length bs) = cfg_timesteps c"
    using assms(2,3)
    by (auto simp: linear_beta_schedule_def cosine_beta_schedule_def linspace_def Let_def
        bind_err_def index_def nat_add_distrib)
  then obtain bs where bs: "(if cfg_beta_schedule c = ''linear'' then linear_beta_schedule (cfg_timesteps c)
              else if cfg_beta_schedule c = ''cosine''
                then cosine_beta_schedule (cfg_timesteps c) 0.008
              else Inl ValueError) = Inr bs" and len: "int (length bs) = cfg_timesteps c" by blast
  have "\<exists>e. build c bs = Inr e"
    using assms(4) len by (auto simp: build_def Let_def split: option.splits)
  then show ?thesis using assms(1) bs by (auto simp: init_def bind_err_def)
qed

subsection \<open>Guidance with unit scale\<close>

text \<open>
  Claim C6.  With \<open>cond_scale = 1\<close> the guidance wrapper of either network returns the
  output of the layer stack on the unchanged condition, and \<^verbatim>\<open>forward\<close> is called once,
  with \<^verbatim>\<open>cond_drop_prob = 0\<close>: there is no call with the null condition, no blend and no
  rescaling, whatever \<open>rescaled_phi\<close> is.
\<close>

theorem cond_scale_one_identity:
  "forward_with_cond_scale m x t cond inits 1 rescaled_phi = (layers m x t cond inits, [0])
   \<and> unet_forward_with_cond_scale u x t cond 1 rescaled_phi = (u_layers u x t cond, [0])"
  by (simp add: forward_with_cond_scale_def forward_def unet_forward_with_cond_scale_def
      unet_forward_def)

subsection \<open>Diffuse-to-timestep\<close>

lemma index_nonneg: "0 \<le> i \<Longrightarrow> i < int (length a) \<Longrightarrow> index a i = Inr (a ! nat i)"
  by (simp add: index_def)


text \<open>
  Claim C7.  For a target timestep from 1 up to the number of timesteps, \<^verbatim>\<open>diffuse\<close> returns
  \<open>sqrt alpha * data + sqrt (1 - alpha) * noise\<close> with \<open>alpha = 1 - betas[t - 1]\<close>, the
  per-step value and not an entry of \<open>alphas_cumprod\<close>; the noise is one draw of the shape of
  the data.
\<close>

theorem diffuse_instantaneous_alpha:
  assumes "1 \<le> t" and "t \<le> int (length (betas e))"
  shows "diffuse e data t g =
           Inr (tadd (smul (sqrt (1 - betas e ! nat (t - 1))) data)
                     (smul (sqrt (1 - (1 - betas e ! nat (t - 1)))) (fst (randn_like data g))),
                snd (randn_like data g))"
proof -
  have "index (map (\<lambda>b. 1 - b) (betas e)) (t - 1) = Inr (1 - betas e ! nat (t - 1))"
    using assms by (simp add: index_nonneg)
  then show ?thesis
    by (simp add: diffuse_def bind_err_def split_beta)
qed


subsection \<open>The ancestral step\<close>

lemma build_lengths:
  assumes "build c bs = Inr e"
  shows "length (alphas_cumprod e) = length bs"
    and "length (sqrt_alphas_cumprod e) = length bs"
    and "length (sqrt_one_minus_alphas_cumprod e) = length bs"
    and "length (sqrt_recip_alphas_cumprod e) = length bs"
    and "length (sqrt_recipm1_alphas_cumprod e) = length bs"
    and "length (posterior_variance e) = length bs"
    and "length (posterior_log_variance_clipped e) = length bs"
    and "length (posterior_mean_coef1 e) = length bs"
    and "length (posterior_mean_coef2 e) = length bs"
    and "length (loss_weight e) = length bs"
    and "objective e = cfg_objective c"
  using assms
  by (auto simp: build_def Let_def cumprod_def length_cumprod_from split: if_splits)

lemma extract_t_Inr:
  "list_all (\<lambda>i. 0 \<le> i \<and> i < int (length a)) t \<Longrightarrow> extract_t a t = Inr (map (\<lambda>i. a ! nat i) t)"
  by (simp add: extract_t_def)

lemma extract_t_length: "extract_t a t = Inr r \<Longrightarrow> length r = length t"
  by (auto simp: extract_t_def split: if_splits)

lemma length_rows_mul: "length (rows_mul cs x) = min (length cs) (length x)"
  by (simp add: rows_mul_def)

lemma length_tadd: "length (tadd x y) = min (length x) (length y)"
  by (simp add: tadd_def)

lemma rows_add_zero:
  "length x \<le> length cs \<Longrightarrow> rows_add x (map (\<lambda>c. f c * 0) cs) = x"
proof (induction x arbitrary: cs)
  case Nil
  then show ?case by (simp add: rows_add_def)
next
  case (Cons row x)
  then obtain c cs' where cs: "cs = c # cs'" by (cases cs) auto
  with Cons.prems have "length x \<le> length cs'" by simp
  from Cons.IH [OF this] show ?case by (simp add: rows_add_def cs)
qed

lemma q_posterior_lengths:
  assumes "q_posterior e x_start x_t t = Inr (mu, pv, plv)"
  shows "length mu \<le> length plv"
  using assms
  by (auto simp: q_posterior_def bind_err_Inr_iff length_tadd length_rows_mul
      dest!: extract_t_length)

lemma p_mean_variance_lengths:
  assumes "p_mean_variance e m x t cond inits cs phi clip = Inr (mu, pv, plv, xs)"
  shows "length mu \<le> length plv"
  using assms
  by (auto simp: p_mean_variance_def bind_err_Inr_iff Let_def dest: q_posterior_lengths)

text \<open>
  Claim C2.  At \<open>t = 0\<close> \<^verbatim>\<open>p_sample\<close> returns the posterior mean that \<^verbatim>\<open>p_mean_variance\<close>
  computed, for any batch, and leaves the generator untouched (and it fails exactly when
  \<^verbatim>\<open>p_mean_variance\<close> fails).  At every \<open>t > 0\<close> it draws one noise tensor of the shape of
  \<open>x\<close> and adds it, scaled by \<open>exp (0.5 * log_variance)\<close>, to the mean.
\<close>

theorem p_sample_final_step:
  "p_sample e m x 0 cond inits cond_scale rescaled_phi clip_denoised g =
     bind_err (p_mean_variance e m x (replicate (length x) 0) cond inits cond_scale rescaled_phi
                 clip_denoised)
       (\<lambda>(model_mean, variance, log_variance, x_start). Inr ((model_mean, x_start), g))
   \<and> (0 < t \<longrightarrow>
        p_sample e m x t cond inits cond_scale rescaled_phi clip_denoised g =
          bind_err (p_mean_variance e m x (replicate (length x) t) cond inits cond_scale
                      rescaled_phi clip_denoised)
            (\<lambda>(model_mean, variance, log_variance, x_start).
               Inr ((tadd model_mean
                       (rows_mul (map (\<lambda>lv. exp (0.5 * lv)) log_variance)
                          (fst (randn_like x g))), x_start),
                    snd (randn_like x g))))"
proof (intro conjI impI)
  show "p_sample e m x 0 cond inits cond_scale rescaled_phi clip_denoised g =
     bind_err (p_mean_variance e m x (replicate (length x) 0) cond inits cond_scale rescaled_phi
                 clip_denoised)
       (\<lambda>(model_mean, variance, log_variance, x_start). Inr ((model_mean, x_start), g))"
  proof (cases "p_mean_variance e m x (replicate (length x) 0) cond inits cond_scale rescaled_phi
                 clip_denoised")
    case (Inl err)
    then show ?thesis by (simp add: p_sample_def bind_err_def)
  next
    case (Inr r)
    obtain mu pv plv xs where r: "r = (mu, pv, plv, xs)" by (cases r) auto
    from p_mean_variance_lengths [OF Inr [unfolded r]] have "length mu \<le> length plv" .
    then have "rows_add mu (map (\<lambda>lv. exp (0.5 * lv) * 0) plv) = mu"
      by (rule rows_add_zero)
    then show ?thesis using Inr r by (simp add: p_sample_def bind_err_def)
  qed
next
  assume "0 < t"
  then show "p_sample e m x t cond inits cond_scale rescaled_phi clip_denoised g =
          bind_err (p_mean_variance e m x (replicate (length x) t) cond inits cond_scale
                      rescaled_phi clip_denoised)
            (\<lambda>(model_mean, variance, log_variance, x_start).
               Inr ((tadd model_mean
                       (rows_mul (map (\<lambda>lv. exp (0.5 * lv)) log_variance)
                          (fst (randn_like x g))), x_start),
                    snd (randn_like x g)))"
    by (cases "p_mean_variance e m x (replicate (length x) t) cond inits cond_scale
                      rescaled_phi clip_denoised")
       (auto simp: p_sample_def bind_err_def split_beta)
qed

subsection \<open>Instances on a two-step cosine engine\<close>

lemma init_betas_length:
  assumes "init c = Inr e" and "0 \<le> cfg_timesteps c"
  shows "int (length (betas e)) = cfg_timesteps c"
proof -
  from init_Inr [OF assms(1)] obtain bs where b: "build c bs = Inr e"
    and k: "cfg_beta_schedule c = ''linear'' \<and> linear_beta_schedule (cfg_timesteps c) = Inr bs
            \<or> cfg_beta_schedule c = ''cosine'' \<and> cosine_beta_schedule (cfg_timesteps c) 0.008 = Inr bs"
    by blast
  have "int (length bs) = cfg_timesteps c"
    using k assms(2) by (auto dest: linear_betas_length cosine_betas_length)
  then show ?thesis using build_Inr [OF b] by simp
qed

lemma engine2_init: "init (mk_config 2 None ''pred_noise'' ''cosine'' 0) = Inr engine2"
proof -
  have "\<exists>e. init (mk_config 2 None ''pred_noise'' ''cosine'' 0) = Inr e"
    by (rule init_total) (simp_all add: mk_config_def)
  then show ?thesis by (auto simp: engine2_def)
qed

lemma engine2_betas: "length (betas engine2) = 2"
  using init_betas_length [OF engine2_init] by (simp add: mk_config_def)

lemma randn_like_rng0: "randn_like [[1, 2]] rng0 = ([[0, 1]], rng0\<lparr>drawn := 2\<rparr>)"
  by (simp add: randn_like_def rng0_def numel_def upt_rec)

theorem diffuse_instantaneous_alpha_witness:
  "(1::int) \<le> 2 \<and> (2::int) \<le> int (length (betas engine2))
   \<and> diffuse engine2 [[1, 2]] 2 rng0 =
       Inr (tadd (smul (sqrt (1 - betas engine2 ! 1)) [[1, 2]])
                 (smul (sqrt (1 - (1 - betas engine2 ! 1))) [[0, 1]]),
            rng0\<lparr>drawn := 2\<rparr>)"
  using diffuse_instantaneous_alpha [of 2 engine2 "[[1, 2]]" rng0]
  by (simp add: engine2_betas randn_like_rng0)


theorem p_sample_final_step_witness:
  "(0::int) < 1
   \<and> p_sample engine2 net0 [[1, 2]] 0 [[0]] [[0]] 1 0 True rng0 =
       bind_err (p_mean_variance engine2 net0 [[1, 2]] [0] [[0]] [[0]] 1 0 True)
         (\<lambda>(model_mean, variance, log_variance, x_start). Inr ((model_mean, x_start), rng0))
   \<and> p_sample engine2 net0 [[1, 2]] 1 [[0]] [[0]] 1 0 True rng0 =
       bind_err (p_mean_variance engine2 net0 [[1, 2]] [1] [[0]] [[0]] 1 0 True)
         (\<lambda>(model_mean, variance, log_variance, x_start).
            Inr ((tadd model_mean (rows_mul (map (\<lambda>lv. exp (0.5 * lv)) log_variance) [[0, 1]]),
                  x_start), rng0\<lparr>drawn := 2\<rparr>))"
  using p_sample_final_step [of engine2 net0 "[[1, 2]]" "[[0]]" "[[0]]" 1 0 True rng0 1]
  by (simp add: randn_like_rng0)

subsection \<open>DDIM sampling without noise scale\<close>

lemma smul_zero_fill: "smul 0 (fill f p x) = zeros_like x"
  by (induction x arbitrary: p) (simp_all add: smul_def zeros_like_def comp_def map_replicate_const)

lemma ddim_body_eta0:
  assumes "ddim_sampling_eta e = 0"
  shows "map_sum id fst (ddim_body e m b cond inits cs phi clip pair (img, g1)) =
         map_sum id fst (ddim_body e m b cond inits cs phi clip pair (img, g2))"
proof (cases "model_predictions e m img (replicate b (fst pair)) cond inits cs phi clip False")
  case (Inl err)
  then show ?thesis by (simp add: ddim_body_def bind_err_def)
next
  case (Inr r)
  obtain pn xs where r: "r = (pn, xs)" by (cases r)
  show ?thesis
  proof (cases "snd pair < 0")
    case True
    then show ?thesis using Inr r by (simp add: ddim_body_def bind_err_def)
  next
    case False
    show ?thesis
    proof (cases "index (alphas_cumprod e) (fst pair)")
      case (Inl err)
      then show ?thesis using Inr r False by (simp add: ddim_body_def bind_err_def)
    next
      case a: (Inr alpha)
      show ?thesis
      proof (cases "index (alphas_cumprod e) (snd pair)")
        case (Inl err)
        then show ?thesis using Inr r False a by (simp add: ddim_body_def bind_err_def)
      next
        case an: (Inr alpha_next)
        show ?thesis
          using Inr r False a an assms
          by (simp add: ddim_body_def bind_err_def randn_like_def smul_zero_fill)
      qed
    qed
  qed
qed

lemma for_each_ddim_eta0:
  assumes "ddim_sampling_eta e = 0"
  shows "map_sum id fst (for_each (ddim_body e m b cond inits cs phi clip) pairs (img, g1)) =
         map_sum id fst (for_each (ddim_body e m b cond inits cs phi clip) pairs (img, g2))"
proof (induction pairs arbitrary: img g1 g2)
  case Nil
  show ?case by simp
next
  case (Cons pair pairs)
  have eq: "map_sum id fst (ddim_body e m b cond inits cs phi clip pair (img, g1)) =
            map_sum id fst (ddim_body e m b cond inits cs phi clip pair (img, g2))"
    by (rule ddim_body_eta0 [OF assms])
  show ?case
  proof (cases "ddim_body e m b cond inits cs phi clip pair (img, g1)")
    case (Inl err)
    with eq have "ddim_body e m b cond inits cs phi clip pair (img, g2) = Inl err"
      by (cases "ddim_body e m b cond inits cs phi clip pair (img, g2)") simp_all
    with Inl show ?thesis by simp
  next
    case (Inr s1)
    obtain img' g1' where s1: "s1 = (img', g1')" by (cases s1)
    from eq Inr s1 obtain g2' where
      r2: "ddim_body e m b cond inits cs phi clip pair (img, g2) = Inr (img', g2')"
      by (cases "ddim_body e m b cond inits cs phi clip pair (img, g2)") auto
    show ?thesis using Inr s1 r2 Cons.IH [of img' g1' g2'] by simp
  qed
qed

text \<open>
  Claim C1, as amended.  With \<open>ddim_sampling_eta = 0\<close> two runs of \<^verbatim>\<open>ddim_sample\<close> that start from
  the same sample return the same output (or fail alike), whatever the generators hold after
  the starting sample: \<open>sigma\<close> is zero at every step pair, so the noise drawn there is
  multiplied by zero.  The noise is still drawn at every pair with \<open>time_next \<ge> 0\<close>.
\<close>

theorem ddim_eta_zero_deterministic:
  assumes "ddim_sampling_eta e = 0"
    and "fst (randn shape g1) = fst (randn shape g2)"
  shows "map_sum id fst (ddim_sample e m shape cond inits cond_scale rescaled_phi clip_denoised g1) =
         map_sum id fst (ddim_sample e m shape cond inits cond_scale rescaled_phi clip_denoised g2)"
proof (cases "time_pairs (int (num_timesteps e)) (sampling_timesteps e)")
  case (Inl err)
  then show ?thesis by (simp add: ddim_sample_def bind_err_def)
next
  case (Inr pairs)
  obtain img h1 where r1: "randn shape g1 = (img, h1)" by (cases "randn shape g1")
  with assms(2) obtain h2 where r2: "randn shape g2 = (img, h2)"
    by (cases "randn shape g2") auto
  have eq: "map_sum id fst (for_each (ddim_body e m (fst shape) cond inits cond_scale rescaled_phi clip_denoised) pairs (img, h1)) =
        map_sum id fst (for_each (ddim_body e m (fst shape) cond inits cond_scale rescaled_phi clip_denoised) pairs (img, h2))"
    by (rule for_each_ddim_eta0 [OF assms(1)])
  show ?thesis
  proof (cases "for_each (ddim_body e m (fst shape) cond inits cond_scale rescaled_phi clip_denoised) pairs (img, h1)")
    case (Inl err)
    with eq have "for_each (ddim_body e m (fst shape) cond inits cond_scale rescaled_phi clip_denoised) pairs (img, h2) = Inl err"
      by (cases "for_each (ddim_body e m (fst shape) cond inits cond_scale rescaled_phi clip_denoised) pairs (img, h2)") simp_all
    with Inl Inr r1 r2 show ?thesis by (simp add: ddim_sample_def bind_err_def)
  next
    case s: (Inr s1)
    obtain img' k1 where s1: "s1 = (img', k1)" by (cases s1)
    from eq s s1 obtain k2 where
      "for_each (ddim_body e m (fst shape) cond inits cond_scale rescaled_phi clip_denoised) pairs (img, h2) = Inr (img', k2)"
      by (cases "for_each (ddim_body e m (fst shape) cond inits cond_scale rescaled_phi clip_denoised) pairs (img, h2)") auto
    with s s1 Inr r1 r2 show ?thesis by (simp add: ddim_sample_def bind_err_def)
  qed
qed

subsection \<open>Training dropout\<close>

text \<open>
  Claim C9 at a concrete input.  The batch has one element with condition \<open>[1, 2]\<close> and
  initial state \<open>[3, 4]\<close>; the uniform draws for the condition are \<open>0.05\<close> and \<open>0.5\<close>.  The
  mask has the shape of the condition, so the first entry is zeroed and the second kept:
  the condition vector of the batch element is neither kept nor zeroed as a unit.
\<close>

theorem dropout_is_elementwise:
  "drop_conditioning cfg_engine [[1, 2]] [[3, 4]] rng_u = ([[0, 2]], [[3, 4]], rng_u\<lparr>drawn := 4\<rparr>)"
  by (simp add: drop_conditioning_def cfg_engine_def rng_u_def randn_like_def numel_def
      mask_mul_def upt_rec split_beta)

subsection \<open>Steps that do not fail\<close>

lemma build_fields:
  assumes "build c bs = Inr e"
  shows "sampling_timesteps e =
           (case cfg_sampling_timesteps c of None \<Rightarrow> int (length bs) | Some v \<Rightarrow> v)"
    and "ddim_sampling_eta e = cfg_ddim_sampling_eta c"
    and "classifier_free_guidance e = cfg_classifier_free_guidance c"
    and "auto_normalize e = cfg_auto_normalize c"
  using assms by (auto simp: build_def Let_def split: if_splits)

lemma init_build:
  assumes "init c = Inr e" and "0 \<le> cfg_timesteps c"
  shows "\<exists>bs. build c bs = Inr e \<and> int (length bs) = cfg_timesteps c
           \<and> cfg_objective c \<in> {''pred_noise'', ''pred_x0'', ''pred_v''}"
proof -
  from init_Inr [OF assms(1)] obtain bs where b: "build c bs = Inr e"
    and k: "cfg_beta_schedule c = ''linear'' \<and> linear_beta_schedule (cfg_timesteps c) = Inr bs
            \<or> cfg_beta_schedule c = ''cosine'' \<and> cosine_beta_schedule (cfg_timesteps c) 0.008 = Inr bs"
    by blast
  have "int (length bs) = cfg_timesteps c"
    using k assms(2) by (auto dest: linear_betas_length cosine_betas_length)
  moreover have "cfg_objective c \<in> {''pred_noise'', ''pred_x0'', ''pred_v''}"
    using assms(1) by (auto simp: init_def split: if_splits)
  ultimately show ?thesis using b by blast
qed

lemma extract_t_total:
  "list_all (\<lambda>i. 0 \<le> i \<and> i < int n) t \<Longrightarrow> length a = n \<Longrightarrow> \<exists>r. extract_t a t = Inr r"
  by (simp add: extract_t_def)

lemma model_predictions_total:
  assumes "init c = Inr e" and "0 \<le> cfg_timesteps c"
    and "list_all (\<lambda>i. 0 \<le> i \<and> i < cfg_timesteps c) t"
  shows "\<exists>r. model_predictions e m x t cond inits cs phi clip rederive = Inr r"
proof -
  from init_build [OF assms(1,2)] obtain bs where b: "build c bs = Inr e"
    and len: "int (length bs) = cfg_timesteps c"
    and obj: "cfg_objective c \<in> {''pred_noise'', ''pred_x0'', ''pred_v''}" by blast
  have rng: "list_all (\<lambda>i. 0 \<le> i \<and> i < int (length bs)) t" using assms(3) len by simp
  note L = build_lengths [OF b]
  have ex: "\<And>a. length a = length bs \<Longrightarrow> \<exists>r. extract_t a t = Inr r"
    using extract_t_total [OF rng] by blast
  obtain r1 where r1: "extract_t (sqrt_recip_alphas_cumprod e) t = Inr r1" using ex L(4) by blast
  obtain r2 where r2: "extract_t (sqrt_recipm1_alphas_cumprod e) t = Inr r2" using ex L(5) by blast
  obtain r3 where r3: "extract_t (sqrt_alphas_cumprod e) t = Inr r3" using ex L(2) by blast
  obtain r4 where r4: "extract_t (sqrt_one_minus_alphas_cumprod e) t = Inr r4" using ex L(3) by blast
  have o: "objective e \<in> {''pred_noise'', ''pred_x0'', ''pred_v''}" using obj L(11) by simp
  show ?thesis
    using o r1 r2 r3 r4
    by (auto simp: model_predictions_def Let_def bind_err_def predict_start_from_noise_def
        predict_noise_from_start_def predict_start_from_v_def)
qed

lemma index_total: "0 \<le> i \<Longrightarrow> i < int (length a) \<Longrightarrow> \<exists>r. index a i = Inr r"
  by (simp add: index_def)

lemma ddim_body_step:
  assumes "init c = Inr e" and "0 \<le> cfg_timesteps c"
    and "0 \<le> time" and "time < cfg_timesteps c"
    and "0 \<le> time_next" and "time_next < cfg_timesteps c"
  shows "\<exists>img'. ddim_body e m b cond inits cs phi clip (time, time_next) (img, g)
           = Inr (img', g\<lparr>drawn := drawn g + numel img\<rparr>)"
proof -
  from init_build [OF assms(1,2)] obtain bs where bd: "build c bs = Inr e"
    and len: "int (length bs) = cfg_timesteps c" by blast
  have t: "list_all (\<lambda>i. 0 \<le> i \<and> i < cfg_timesteps c) (replicate b time)"
    using assms(3,4) by (simp add: list_all_iff)
  from model_predictions_total [OF assms(1,2) t]
  obtain pn xs where mp: "model_predictions e m img (replicate b time) cond inits cs phi clip False = Inr (pn, xs)"
    by (metis surj_pair)
  have la: "int (length (alphas_cumprod e)) = cfg_timesteps c"
    using build_lengths(1) [OF bd] len by simp
  obtain a where a: "index (alphas_cumprod e) time = Inr a"
    using index_total [of time "alphas_cumprod e"] assms(3,4) la by auto
  obtain an where an: "index (alphas_cumprod e) time_next = Inr an"
    using index_total [of time_next "alphas_cumprod e"] assms(5,6) la by auto
  show ?thesis
    using mp a an assms(5)
    by (simp add: ddim_body_def bind_err_def randn_like_def Let_def)
qed

lemma ddim_body_last:
  assumes "init c = Inr e" and "0 \<le> cfg_timesteps c"
    and "0 \<le> time" and "time < cfg_timesteps c" and "time_next < 0"
  shows "\<exists>img'. ddim_body e m b cond inits cs phi clip (time, time_next) (img, g) = Inr (img', g)"
proof -
  have t: "list_all (\<lambda>i. 0 \<le> i \<and> i < cfg_timesteps c) (replicate b time)"
    using assms(3,4) by (simp add: list_all_iff)
  from model_predictions_total [OF assms(1,2) t]
  obtain pn xs where mp: "model_predictions e m img (replicate b time) cond inits cs phi clip False = Inr (pn, xs)"
    by (metis surj_pair)
  show ?thesis using mp assms(5) by (simp add: ddim_body_def bind_err_def)
qed

text \<open>The ancestral step returns a result at every timestep of a constructed engine.\<close>

lemma p_sample_total:
  assumes "init c = Inr e" and "0 \<le> t" and "t < cfg_timesteps c"
  shows "\<exists>r. p_sample e m x t cond inits cs phi clip g = Inr r"
proof -
  have T: "0 \<le> cfg_timesteps c" using assms(2,3) by simp
  from init_build [OF assms(1) T] obtain bs where b: "build c bs = Inr e"
    and len: "int (length bs) = cfg_timesteps c" by blast
  note L = build_lengths [OF b]
  have tr: "list_all (\<lambda>i. 0 \<le> i \<and> i < cfg_timesteps c) (replicate (length x) t)"
    using assms(2,3) by (simp add: list_all_iff)
  then have rng: "list_all (\<lambda>i. 0 \<le> i \<and> i < int (length bs)) (replicate (length x) t)"
    using len by simp
  from model_predictions_total [OF assms(1) T tr]
  obtain pn xs where mp: "model_predictions e m x (replicate (length x) t) cond inits cs phi False False
                            = Inr (pn, xs)"
    by (metis surj_pair)
  have ex: "\<And>a. length a = length bs \<Longrightarrow> \<exists>r. extract_t a (replicate (length x) t) = Inr r"
    using extract_t_total [OF rng] by blast
  obtain c1 where c1: "extract_t (posterior_mean_coef1 e) (replicate (length x) t) = Inr c1"
    using ex L(8) by blast
  obtain c2 where c2: "extract_t (posterior_mean_coef2 e) (replicate (length x) t) = Inr c2"
    using ex L(9) by blast
  obtain pv where pv: "extract_t (posterior_variance e) (replicate (length x) t) = Inr pv"
    using ex L(6) by blast
  obtain plv where plv: "extract_t (posterior_log_variance_clipped e) (replicate (length x) t) = Inr plv"
    using ex L(7) by blast
  have "\<exists>r. p_mean_variance e m x (replicate (length x) t) cond inits cs phi clip = Inr r"
    using mp c1 c2 pv plv
    by (simp add: p_mean_variance_def q_posterior_def bind_err_def Let_def)
  then obtain mu v lv xs' where
    "p_mean_variance e m x (replicate (length x) t) cond inits cs phi clip = Inr (mu, v, lv, xs')"
    by (metis surj_pair)
  then show ?thesis
    by (simp add: p_sample_def bind_err_def Let_def split_beta)
qed

subsection \<open>Instances on a three-step DDIM engine\<close>

lemma engine3_init: "init (mk_config 3 (Some 2) ''pred_noise'' ''cosine'' 0) = Inr engine3"
proof -
  have "\<exists>e. init (mk_config 3 (Some 2) ''pred_noise'' ''cosine'' 0) = Inr e"
    by (rule init_total) (simp_all add: mk_config_def)
  then show ?thesis by (auto simp: engine3_def)
qed

lemma engine3_fields:
  "num_timesteps engine3 = 3" "sampling_timesteps engine3 = 2" "ddim_sampling_eta engine3 = 0"
  "auto_normalize engine3 = False"
proof -
  have T: "0 \<le> cfg_timesteps (mk_config 3 (Some 2) ''pred_noise'' ''cosine'' 0)"
    by (simp add: mk_config_def)
  from init_build [OF engine3_init T] obtain bs
    where b: "build (mk_config 3 (Some 2) ''pred_noise'' ''cosine'' 0) bs = Inr engine3"
      and len: "int (length bs) = cfg_timesteps (mk_config 3 (Some 2) ''pred_noise'' ''cosine'' 0)"
    by blast
  from len have l3: "length bs = 3" by (simp add: mk_config_def)
  show "num_timesteps engine3 = 3" using build_Inr(3) [OF b] l3 by simp
  show "sampling_timesteps engine3 = 2" using build_fields(1) [OF b] by (simp add: mk_config_def)
  show "ddim_sampling_eta engine3 = 0" using build_fields(2) [OF b] by (simp add: mk_config_def)
  show "auto_normalize engine3 = False" using build_fields(4) [OF b] by (simp add: mk_config_def)
qed

lemma time_pairs_3_2: "time_pairs 3 2 = Inr [(2, 0), (0, - 1)]"
  by (simp add: time_pairs_def linspace_def bind_err_def trunc_def upt_rec ceiling_def)

lemma randn_rng0: "randn (2, 2) rng0 = ([[0, 1], [2, 3]], rng0\<lparr>drawn := 4\<rparr>)"
  by (simp add: randn_def randn_like_def rng0_def numel_def upt_rec numeral_2_eq_2)

lemma randn_rng1: "randn (2, 2) rng1 = ([[0, 1], [2, 3]], rng1\<lparr>drawn := 4\<rparr>)"
  by (simp add: randn_def randn_like_def rng1_def numel_def upt_rec numeral_2_eq_2)

theorem ddim_eta_zero_deterministic_witness:
  "ddim_sampling_eta engine3 = 0
   \<and> fst (randn (2, 2) rng0) = fst (randn (2, 2) rng1)
   \<and> source rng0 4 \<noteq> source rng1 4
   \<and> map_sum id fst (ddim_sample engine3 net0 (2, 2) [[0], [0]] [[0], [0]] 1 0 True rng0) =
       map_sum id fst (ddim_sample engine3 net0 (2, 2) [[0], [0]] [[0], [0]] 1 0 True rng1)"
proof -
  have eta: "ddim_sampling_eta engine3 = 0" by (rule engine3_fields)
  have start: "fst (randn (2, 2) rng0) = fst (randn (2, 2) rng1)"
    by (simp add: randn_rng0 randn_rng1)
  have "source rng0 4 \<noteq> source rng1 4" by (simp add: rng0_def rng1_def)
  with ddim_eta_zero_deterministic [OF eta start] eta start show ?thesis by blast
qed

text \<open>
  The same engine draws noise in the loop: the starting sample of shape \<open>(2, 2)\<close> takes four
  values, and the step pair \<open>(2, 0)\<close> takes four more, although \<open>eta = 0\<close>.
\<close>

theorem ddim_eta_zero_draws_noise:
  "ddim_sampling_eta engine3 = 0
   \<and> map_sum id (drawn \<circ> snd) (ddim_sample engine3 net0 (2, 2) [[0], [0]] [[0], [0]] 1 0 True rng0) = Inr 8
   \<and> drawn (snd (randn (2, 2) rng0)) = 4"
proof -
  let ?c = "mk_config 3 (Some 2) ''pred_noise'' ''cosine'' 0"
  have T: "0 \<le> cfg_timesteps ?c" and T3: "cfg_timesteps ?c = 3" by (simp_all add: mk_config_def)
  from ddim_body_step [OF engine3_init T, of 2 0 net0 2 "[[0], [0]]" "[[0], [0]]" 1 0 True "[[0, 1], [2, 3]]" "rng0\<lparr>drawn := 4\<rparr>"]
  obtain img1 where s1: "ddim_body engine3 net0 2 [[0], [0]] [[0], [0]] 1 0 True (2, 0)
        ([[0, 1], [2, 3]], rng0\<lparr>drawn := 4\<rparr>)
      = Inr (img1, rng0\<lparr>drawn := 8\<rparr>)"
    by (auto simp: T3 numel_def)
  from ddim_body_last [OF engine3_init T, of 0 "- 1" net0 2 "[[0], [0]]" "[[0], [0]]" 1 0 True img1 "rng0\<lparr>drawn := 8\<rparr>"]
  obtain img2 where s2: "ddim_body engine3 net0 2 [[0], [0]] [[0], [0]] 1 0 True (0, - 1)
        (img1, rng0\<lparr>drawn := 8\<rparr>)
      = Inr (img2, rng0\<lparr>drawn := 8\<rparr>)"
    by (auto simp: T3)
  have "ddim_sample engine3 net0 (2, 2) [[0], [0]] [[0], [0]] 1 0 True rng0
          = Inr (unnormalize engine3 img2, rng0\<lparr>drawn := 8\<rparr>)"
    by (simp add: ddim_sample_def engine3_fields time_pairs_3_2 bind_err_def randn_rng0 s1 s2)
  then show ?thesis by (simp add: engine3_fields randn_rng0)
qed

subsection \<open>Resuming from a partially noised sample\<close>

lemma pairs_of_rev:
  "zip (butlast (rev (map f [0 ..< Suc n]))) (tl (rev (map f [0 ..< Suc n])))
     = map (\<lambda>i. (f (Suc i), f i)) (rev [0 ..< n])"
proof (induction n)
  case 0
  show ?case by simp
next
  case (Suc n)
  have "rev (map f [0 ..< Suc (Suc n)]) = f (Suc n) # rev (map f [0 ..< Suc n])" by simp
  moreover have "rev (map f [0 ..< Suc n]) \<noteq> []" by simp
  moreover have "tl (rev (map f [0 ..< Suc n])) = rev (map f [0 ..< n])" by simp
  ultimately show ?case using Suc.IH by (simp del: upt_Suc add: upt_Suc_append)
qed

lemma trunc_of_int: "trunc (real_of_int k) = k"
  by (simp add: trunc_def)

lemma time_pairs_dense:
  assumes "0 \<le> s"
  shows "time_pairs s s = Inr (map (\<lambda>i. (int i, int i - 1)) (rev [0 ..< nat s]))"
proof (cases "s = 0")
  case True
  then show ?thesis by (simp add: time_pairs_def linspace_def bind_err_def)
next
  case False
  with assms have s: "0 < s" by simp
  have pt: "- 1 + real i * (real_of_int s - 1 - - 1) / (real_of_int (s + 1) - 1) = real_of_int (int i - 1)" for i
    using s by simp
  have lin: "linspace (- 1) (real_of_int s - 1) (s + 1)
               = Inr (map (\<lambda>i. real_of_int (int i - 1)) [0 ..< Suc (nat s)])"
    using s unfolding linspace_def pt by (simp add: nat_add_distrib)
  have mt: "map trunc (map (\<lambda>i. real_of_int (int i - 1)) [0 ..< Suc (nat s)])
          = map (\<lambda>i. int i - 1) [0 ..< Suc (nat s)]"
    unfolding map_map comp_def trunc_of_int ..
  have "time_pairs s s =
      (let times = rev (map trunc (map (\<lambda>i. real_of_int (int i - 1)) [0 ..< Suc (nat s)]))
       in Inr (zip (butlast times) (tl times)))"
    unfolding time_pairs_def lin bind_err_def by (simp only: sum.case)
  then have "time_pairs s s = Inr (map (\<lambda>i. (int (Suc i) - 1, int i - 1)) (rev [0 ..< nat s]))"
    by (simp only: Let_def mt pairs_of_rev)
  then show ?thesis by simp
qed

text \<open>
  Claim C8, as amended.  Resumed from a supplied sample at a starting timestep \<open>s \<ge> 0\<close>,
  \<^verbatim>\<open>ddim_sample\<close> of the trainer class runs the DDIM update over the step pairs
  \<open>(s - 1, s - 2), ..., (1, 0), (0, - 1)\<close>: every timestep below \<open>s\<close>, whatever the engine's
  own sampling schedule is.  \<^verbatim>\<open>inference\<close> takes this path for every \<open>s\<close> below the number
  of timesteps, and otherwise runs the ancestral step for \<open>t = s - 1, ..., 0\<close> from the
  supplied sample.
\<close>

theorem resume_runs_dense_schedule:
  assumes "0 \<le> s"
  shows "trainer_ddim_sample e m shape cond inits cond_scale rescaled_phi clip_denoised
           (Some starting_data) (Some s) g =
           bind_err (for_each (ddim_body e m (fst shape) cond inits cond_scale rescaled_phi
                                 clip_denoised)
                       (map (\<lambda>i. (int i, int i - 1)) (rev [0 ..< nat s])) (starting_data, g))
             (\<lambda>(img, g). Inr (unnormalize e img, g))
         \<and> inference e m cond inits s starting_data cond_scale rescaled_phi g =
             (if s < int (length (betas e))
              then bind_err (for_each (ddim_body e m (length cond) cond inits cond_scale
                                         rescaled_phi True)
                               (map (\<lambda>i. (int i, int i - 1)) (rev [0 ..< nat s]))
                               (starting_data, g))
                     (\<lambda>(img, g). Inr (unnormalize e img, g))
              else bind_err (for_each (p_sample_body e m cond inits cond_scale rescaled_phi)
                               (rev (map int [0 ..< nat s])) (starting_data, g))
                     (\<lambda>(img, g). Inr (unnormalize e img, g)))"
proof -
  have d: "trainer_ddim_sample e m sh cond inits cond_scale rescaled_phi cl
           (Some starting_data) (Some s) g =
           bind_err (for_each (ddim_body e m (fst sh) cond inits cond_scale rescaled_phi cl)
                       (map (\<lambda>i. (int i, int i - 1)) (rev [0 ..< nat s])) (starting_data, g))
             (\<lambda>(img, g). Inr (unnormalize e img, g))" for sh cl
    by (simp add: trainer_ddim_sample_def time_pairs_dense [OF assms] bind_err_def)
  show ?thesis
    by (simp add: d inference_def Let_def)
qed

theorem resume_runs_dense_schedule_witness:
  "(0::int) \<le> 6
   \<and> trainer_ddim_sample engine10 net0 (2, 2) [[0], [0]] [[0], [0]] 1 0 True
        (Some [[0, 1], [2, 3]]) (Some 6) rng0 =
        bind_err (for_each (ddim_body engine10 net0 2 [[0], [0]] [[0], [0]] 1 0 True)
                    [(5, 4), (4, 3), (3, 2), (2, 1), (1, 0), (0, - 1)] ([[0, 1], [2, 3]], rng0))
          (\<lambda>(img, g). Inr (unnormalize engine10 img, g))"
  using resume_runs_dense_schedule [of 6 engine10 net0 "(2, 2)" "[[0], [0]]" "[[0], [0]]" 1 0 True
      "[[0, 1], [2, 3]]" rng0]
  by (simp add: upt_rec)

lemma engine10_init: "init (mk_config 10 (Some 5) ''pred_noise'' ''cosine'' 0) = Inr engine10"
proof -
  have "\<exists>e. init (mk_config 10 (Some 5) ''pred_noise'' ''cosine'' 0) = Inr e"
    by (rule init_total) (simp_all add: mk_config_def)
  then show ?thesis by (auto simp: engine10_def)
qed

lemma engine10_fields: "num_timesteps engine10 = 10" "sampling_timesteps engine10 = 5"
proof -
  have T: "0 \<le> cfg_timesteps (mk_config 10 (Some 5) ''pred_noise'' ''cosine'' 0)"
    by (simp add: mk_config_def)
  from init_build [OF engine10_init T] obtain bs
    where b: "build (mk_config 10 (Some 5) ''pred_noise'' ''cosine'' 0) bs = Inr engine10"
      and len: "int (length bs) = cfg_timesteps (mk_config 10 (Some 5) ''pred_noise'' ''cosine'' 0)"
    by blast
  from len have l: "length bs = 10" by (simp add: mk_config_def)
  show "num_timesteps engine10 = 10" using build_Inr(3) [OF b] l by simp
  show "sampling_timesteps engine10 = 5" using build_fields(1) [OF b] by (simp add: mk_config_def)
qed

lemma time_pairs_10_5: "time_pairs 10 5 = Inr [(9, 7), (7, 5), (5, 3), (3, 1), (1, - 1)]"
  by (simp add: time_pairs_def linspace_def bind_err_def trunc_def upt_rec ceiling_def)

text \<open>
  On the engine with ten timesteps and five sampling steps the schedule has the times
  \<open>9, 7, 5, 3, 1\<close>.  Its entries below timestep 6 are three pairs; a run resumed at
  timestep 6 uses \<open>time_pairs 6 6\<close>, six pairs that pass through the times 4, 2 and 0.
\<close>

theorem resume_not_original_schedule:
  "time_pairs (int (num_timesteps engine10)) (sampling_timesteps engine10)
     = Inr [(9, 7), (7, 5), (5, 3), (3, 1), (1, - 1)]
   \<and> spec_remaining_schedule engine10 6 = Inr [(5, 3), (3, 1), (1, - 1)]
   \<and> time_pairs 6 6 = Inr [(5, 4), (4, 3), (3, 2), (2, 1), (1, 0), (0, - 1)]"
proof -
  have "time_pairs 6 6 = Inr [(5, 4), (4, 3), (3, 2), (2, 1), (1, 0), (0, - 1)]"
    using time_pairs_dense [of 6] by (simp add: upt_rec)
  then show ?thesis
    by (simp add: engine10_fields time_pairs_10_5 spec_remaining_schedule_def bind_err_def)
qed

subsection \<open>Noise to start and back\<close>














end
